theory Spec2Isabelle
  imports Complex_Main "HOL-Library.AList"
begin

section \<open>Deep neural network estimators: the model of \<open>estimators/dnn.py\<close>\<close>

text \<open>
  The module builds a tensor graph; it runs none. The embedding is therefore symbolic:
  a call of a graph-building collaborator (\<open>layers.fully_connected\<close>,
  \<open>layers.dropout\<close>, \<open>optimizers.optimize_loss\<close>, ...) is a node that records the
  arguments of the call, and the functions of \<open>dnn.py\<close> are HOL functions that return
  these nodes. Python floats are read as reals: the module passes them on and
  subtracts one of them from \<open>1.0\<close>; nothing proved below depends on rounding.
  A leading underscore of a Python name is dropped (\<open>_dnn_model_fn\<close> is
  \<open>dnn_model_fn\<close>).
\<close>

subsection \<open>Python values\<close>

text \<open>
  The values the \<open>optimizer\<close> hyperparameter can hold: \<open>None\<close>, a bool, an int, a
  string (an optimizer name), an object that is not callable (an \<open>Optimizer\<close>
  instance) and a zero-argument callable, given by the value its call returns.
\<close>

datatype 'o pyval =
    PyNone
  | PyBool bool
  | PyInt int
  | PyStr string
  | PyObj 'o
  | PyCallable "'o pyval"

text \<open>Truth value testing: \<open>None\<close>, \<open>False\<close>, \<open>0\<close> and \<open>""\<close> are false; an
  object without \<open>__bool__\<close> and \<open>__len__\<close>, and a function, are true.\<close>

fun py_truthy :: "'o pyval \<Rightarrow> bool" where
  "py_truthy PyNone = False"
| "py_truthy (PyBool b) = b"
| "py_truthy (PyInt i) = (i \<noteq> 0)"
| "py_truthy (PyStr s) = (s \<noteq> [])"
| "py_truthy (PyObj obj) = True"
| "py_truthy (PyCallable r) = True"

text \<open>The builtin \<open>callable(v)\<close>.\<close>

fun callable :: "'o pyval \<Rightarrow> bool" where
  "callable (PyCallable r) = True"
| "callable v = False"

text \<open>\<open>a or b\<close>: \<open>a\<close> when it is true, else \<open>b\<close>.\<close>

definition py_or :: "'o pyval \<Rightarrow> 'o pyval \<Rightarrow> 'o pyval" where
  "py_or a b = (if py_truthy a then a else b)"

text \<open>
  \<open>d.get(key, default)\<close> on the entry of \<open>key\<close>: \<open>None\<close> is an absent key,
  \<open>Some v\<close> a key bound to \<open>v\<close> (which may itself be Python's \<open>None\<close>).
\<close>

definition dict_get :: "'v option \<Rightarrow> 'v \<Rightarrow> 'v" where
  "dict_get entry dflt = (case entry of None \<Rightarrow> dflt | Some v \<Rightarrow> v)"

text \<open>\<open>"%d" % n\<close> for a non-negative \<open>n\<close>: the decimal digits, most significant first.\<close>

fun string_of_nat :: "nat \<Rightarrow> string" where
  "string_of_nat n =
     (if n < 10 then [''0123456789'' ! n]
      else string_of_nat (n div 10) @ [''0123456789'' ! (n mod 10)])"

declare string_of_nat.simps [simp del]

subsection \<open>Collaborators: modes, prediction keys, runtime config\<close>

text \<open>Modelled from the spec: \<open>model_fn.ModeKeys\<close> is not in the sources; the spec
  gives the mode as one of TRAIN, EVAL, PREDICT.\<close>

datatype ModeKeys = TRAIN | EVAL | PREDICT

text \<open>Modelled from the spec: \<open>prediction_key.PredictionKey\<close> is not in the sources;
  the spec names the keys CLASSES, PROBABILITIES and SCORES.\<close>

datatype PredictionKey = CLASSES | PROBABILITIES | SCORES

text \<open>\<open>RunConfig\<close>: the one attribute the module reads.\<close>

record RunConfig =
  num_ps_replicas :: int

subsection \<open>The graph\<close>

text \<open>
  The keyword arguments of a call of
  \<open>partitioned_variables.min_max_variable_partitioner\<close>; \<open>min_slice_size = None\<close>
  is a call that does not pass the argument.
\<close>

record partitioner =
  max_partitions :: int
  min_slice_size :: "int option"

text \<open>\<open>variable_scope.variable_scope(name, values=..., partitioner=...)\<close>; the
  \<open>name\<close> attribute of the scope it yields is the name it was opened with (the
  model function is called at the top level of a graph).\<close>

datatype 'x variable_scope =
  VariableScope (scope_name: string) (scope_values: "'x list") (scope_partitioner: partitioner)

text \<open>
  Tensors: \<open>'t\<close> is an input tensor, \<open>'c\<close> a feature column, \<open>'a\<close> an activation
  function. The constructors are the calls \<open>layers.input_from_feature_columns\<close>
  (\<open>columns_to_tensors\<close>, \<open>feature_columns\<close>, \<open>weight_collections\<close>, \<open>scope\<close>),
  \<open>layers.fully_connected\<close> (inputs, \<open>num_outputs\<close>, \<open>activation_fn\<close>,
  \<open>variables_collections\<close>, \<open>scope\<close>), \<open>layers.dropout\<close> (inputs, \<open>keep_prob\<close>)
  and \<open>nn.zero_fraction\<close>.
\<close>

datatype ('t, 'c, 'a) tensor =
    FeatureTensor 't
  | InputFromFeatureColumns "(string \<times> 't) list" "'c list" "string list"
      "('t, 'c, 'a) tensor variable_scope"
  | FullyConnected "('t, 'c, 'a) tensor" int "'a option" "string list"
      "('t, 'c, 'a) tensor variable_scope"
  | Dropout "('t, 'c, 'a) tensor" real
  | ZeroFraction "('t, 'c, 'a) tensor"

text \<open>\<open>summary.scalar(name, tensor)\<close> and \<open>summary.histogram(name, values)\<close>.\<close>

datatype 'x summary = ScalarSummary string 'x | HistogramSummary string 'x

text \<open>The call of \<open>dnn_linear_combined._extract_embedding_lr_multipliers\<close>
  (\<open>embedding_lr_multipliers\<close>, \<open>parent_scope\<close>, \<open>input_layer_scope\<close>).\<close>

datatype 'c gradient_multipliers =
  ExtractEmbeddingLrMultipliers "('c \<times> real) list option" string string

text \<open>\<open>contrib_variables.get_global_step()\<close>.\<close>

datatype global_step = GetGlobalStep

text \<open>The keyword arguments of a call of \<open>optimizers.optimize_loss\<close>.\<close>

record ('c, 'o, 'ls) optimize_loss =
  ol_loss :: 'ls
  ol_global_step :: global_step
  ol_learning_rate :: real
  ol_optimizer :: "'o pyval"
  ol_gradient_multipliers :: "'c gradient_multipliers"
  ol_clip_gradients :: "real option"
  ol_name :: string
  ol_summaries :: "string list"

subsection \<open>Hyperparameters\<close>

text \<open>
  A \<open>_Head\<close>: the attribute \<open>logits_dimension\<close> and the method \<open>head_ops\<close>
  (\<open>features\<close>, \<open>labels\<close>, \<open>mode\<close>, \<open>train_op_fn\<close>, \<open>logits\<close>). Labels are a tensor or
  \<open>None\<close>; \<open>'ls\<close> is the loss the head gives to \<open>train_op_fn\<close>, \<open>'r\<close> what it returns.
\<close>

record ('t, 'c, 'a, 'o, 'ls, 'r) head =
  logits_dimension :: int
  head_ops :: "(string \<times> 't) list \<Rightarrow> 't option \<Rightarrow> ModeKeys \<Rightarrow>
    ('ls \<Rightarrow> ('c, 'o, 'ls) optimize_loss) \<Rightarrow> ('t, 'c, 'a) tensor \<Rightarrow> 'r"

text \<open>
  The \<open>params\<close> dict. The keys read by subscript (\<open>params["head"]\<close>) are fields that
  are always there; a key read with \<open>params.get\<close> is an entry as in \<open>dict_get\<close>:
  \<open>None\<close> when the key is absent, \<open>Some v\<close> when it is bound to \<open>v\<close>, where \<open>v\<close> is
  \<open>None\<close> again for Python's \<open>None\<close>.
\<close>

record ('t, 'c, 'a, 'o, 'ls, 'r) params =
  head :: "('t, 'c, 'a, 'o, 'ls, 'r) head"
  hidden_units :: "int list"
  feature_columns :: "'c list"
  optimizer :: "'o pyval option"
  activation_fn :: "'a option option"
  dropout :: "real option option"
  gradient_clip_norm :: "real option option"
  embedding_lr_multipliers :: "('c \<times> real) list option option"

text \<open>The \<open>features\<close> argument: a dict of tensors (names and tensors, in the dict's
  order) or a single tensor.\<close>

datatype 't features = FeaturesDict "(string \<times> 't) list" | FeaturesTensor 't

subsection \<open>Module constants and helpers (lines 46 to 68)\<close>

definition CENTERED_BIAS_WEIGHT :: string where
  "CENTERED_BIAS_WEIGHT = ''centered_bias_weight''"

definition LEARNING_RATE :: real where
  "LEARNING_RATE = 0.05"

fun get_feature_dict :: "'t features \<Rightarrow> (string \<times> 't) list" where
  "get_feature_dict (FeaturesDict d) = d"
| "get_feature_dict (FeaturesTensor t) = [('''', t)]"

definition get_optimizer :: "'o pyval \<Rightarrow> 'o pyval" where
  "get_optimizer opt = (if callable opt then (case opt of PyCallable r \<Rightarrow> r | v \<Rightarrow> v) else opt)"

definition add_hidden_layer_summary ::
  "('t, 'c, 'a) tensor \<Rightarrow> string \<Rightarrow> ('t, 'c, 'a) tensor summary list" where
  "add_hidden_layer_summary v tag =
     [ScalarSummary (tag @ ''_fraction_of_zero_values'') (ZeroFraction v),
      HistogramSummary (tag @ ''_activation'') v]"

subsection \<open>The model function (lines 71 to 180)\<close>

text \<open>
  The loop over \<open>enumerate(hidden_units)\<close> (lines 136 to 151), from \<open>layer_id\<close> on:
  the state is the current \<open>net\<close> and the summaries written so far.
\<close>

fun hidden_layers ::
  "partitioner \<Rightarrow> 'a option \<Rightarrow> real option \<Rightarrow> ModeKeys \<Rightarrow> string \<Rightarrow> nat \<Rightarrow> int list \<Rightarrow>
   ('t, 'c, 'a) tensor \<times> ('t, 'c, 'a) tensor summary list \<Rightarrow>
   ('t, 'c, 'a) tensor \<times> ('t, 'c, 'a) tensor summary list" where
  "hidden_layers hidden_layer_partitioner act drop_rate mode parent_scope layer_id [] st = st"
| "hidden_layers hidden_layer_partitioner act drop_rate mode parent_scope layer_id
     (num_hidden_units # rest) (net, summaries) =
     (let scope = VariableScope (parent_scope @ ''/hiddenlayer_'' @ string_of_nat layer_id)
                    [net] hidden_layer_partitioner;
          net1 = FullyConnected net num_hidden_units act [parent_scope] scope;
          net2 = (case drop_rate of
                    Some d \<Rightarrow> if mode = TRAIN then Dropout net1 (1 - d) else net1
                  | None \<Rightarrow> net1)
      in hidden_layers hidden_layer_partitioner act drop_rate mode parent_scope (Suc layer_id) rest
           (net2, summaries @ add_hidden_layer_summary net2 (scope_name scope)))"

text \<open>The closure \<open>_train_op_fn\<close> (lines 165 to 178), its captured variables first.\<close>

definition train_op_fn ::
  "'o pyval \<Rightarrow> ('c \<times> real) list option \<Rightarrow> real option \<Rightarrow> string \<Rightarrow> string \<Rightarrow> 'ls \<Rightarrow>
   ('c, 'o, 'ls) optimize_loss" where
  "train_op_fn opt multipliers clip_norm parent_scope input_layer_scope loss =
     \<lparr>ol_loss = loss,
      ol_global_step = GetGlobalStep,
      ol_learning_rate = LEARNING_RATE,
      ol_optimizer = get_optimizer opt,
      ol_gradient_multipliers =
        ExtractEmbeddingLrMultipliers multipliers parent_scope input_layer_scope,
      ol_clip_gradients = clip_norm,
      ol_name = parent_scope,
      ol_summaries = []\<rparr>"

text \<open>
  \<open>_dnn_model_fn\<close>: what \<open>head.head_ops\<close> returns, and the summaries the function
  has added to the graph, in the order of the calls.
\<close>

definition dnn_model_fn ::
  "'t features \<Rightarrow> 't option \<Rightarrow> ModeKeys \<Rightarrow> ('t, 'c, 'a, 'o, 'ls, 'r) params \<Rightarrow>
   RunConfig option \<Rightarrow> 'r \<times> ('t, 'c, 'a) tensor summary list" where
  "dnn_model_fn features labels mode ps config =
     (let head' = head ps;
          hidden_units' = hidden_units ps;
          feature_columns' = feature_columns ps;
          optimizer' = py_or (dict_get (optimizer ps) PyNone) (PyStr ''Adagrad'');
          activation_fn' = dict_get (activation_fn ps) None;
          dropout' = dict_get (dropout ps) None;
          gradient_clip_norm' = dict_get (gradient_clip_norm ps) None;
          num_ps_replicas' = (case config of Some c \<Rightarrow> num_ps_replicas c | None \<Rightarrow> 0);
          embedding_lr_multipliers' = dict_get (embedding_lr_multipliers ps) (Some []);
          features' = get_feature_dict features;
          parent_scope = ''dnn'';
          input_layer_partitioner =
            \<lparr>max_partitions = num_ps_replicas', min_slice_size = Some (push_bit 20 64)\<rparr>;
          input_layer_scope = parent_scope @ ''/input_from_feature_columns'';
          scope0 = VariableScope input_layer_scope (map (FeatureTensor \<circ> snd) features')
                     input_layer_partitioner;
          net0 = InputFromFeatureColumns features' feature_columns' [parent_scope] scope0;
          hidden_layer_partitioner =
            \<lparr>max_partitions = num_ps_replicas', min_slice_size = None\<rparr>;
          (net, summaries) =
            hidden_layers hidden_layer_partitioner activation_fn' dropout' mode parent_scope 0
              hidden_units' (net0, []);
          scope = VariableScope (parent_scope @ ''/logits'') [net] hidden_layer_partitioner;
          logits = FullyConnected net (logits_dimension head') None [parent_scope] scope
      in (head_ops head' features' labels mode
            (train_op_fn optimizer' embedding_lr_multipliers' gradient_clip_norm' parent_scope
               input_layer_scope)
            logits,
          summaries @ add_hidden_layer_summary logits (scope_name scope)))"

subsection \<open>\<open>DNNClassifier\<close> (lines 183 to 500)\<close>

datatype error = ValueError

text \<open>
  Modelled from the spec: \<open>head_lib._multi_class_head\<close> is not in the sources. The
  spec (4.2 and 7) has it fail with a validation failure when \<open>n_classes < 2\<close>, and
  the docstring of \<open>DNNClassifier.__init__\<close> names the failure: \<open>ValueError\<close>. The head
  it builds from valid arguments is the parameter \<open>mk\<close>.
\<close>

definition multi_class_head ::
  "(int \<Rightarrow> string option \<Rightarrow> bool \<Rightarrow> ('t, 'c, 'a, 'o, 'ls, 'r) head) \<Rightarrow>
   int \<Rightarrow> string option \<Rightarrow> bool \<Rightarrow> error + ('t, 'c, 'a, 'o, 'ls, 'r) head" where
  "multi_class_head mk n_classes weight_column_name enable_centered_bias =
     (if n_classes < 2 then Inl ValueError
      else Inr (mk n_classes weight_column_name enable_centered_bias))"

text \<open>The keyword arguments of \<open>estimator.Estimator(...)\<close>.\<close>

record ('t, 'c, 'a, 'o, 'ls, 'r, 'fe) Estimator =
  est_model_fn :: "'t features \<Rightarrow> 't option \<Rightarrow> ModeKeys \<Rightarrow> ('t, 'c, 'a, 'o, 'ls, 'r) params \<Rightarrow>
    RunConfig option \<Rightarrow> 'r \<times> ('t, 'c, 'a) tensor summary list"
  est_model_dir :: "string option"
  est_config :: "RunConfig option"
  est_params :: "('t, 'c, 'a, 'o, 'ls, 'r) params"
  est_feature_engineering_fn :: "'fe option"

text \<open>The attributes \<open>_hidden_units\<close>, \<open>_feature_columns\<close>, \<open>_enable_centered_bias\<close>
  and \<open>_estimator\<close> of a \<open>DNNClassifier\<close>.\<close>

record ('t, 'c, 'a, 'o, 'ls, 'r, 'fe) DNNClassifier =
  self_hidden_units :: "int list"
  self_feature_columns :: "'c list"
  self_enable_centered_bias :: bool
  self_estimator :: "('t, 'c, 'a, 'o, 'ls, 'r, 'fe) Estimator"

text \<open>
  \<open>DNNClassifier.__init__\<close> (lines 237 to 318). The arguments of \<open>Estimator(...)\<close> are
  evaluated before the call, the head among them: when \<open>_multi_class_head\<close> raises,
  \<open>__init__\<close> raises and there is no classifier.
\<close>

definition DNNClassifier_init ::
  "(int \<Rightarrow> string option \<Rightarrow> bool \<Rightarrow> ('t, 'c, 'a, 'o, 'ls, 'r) head) \<Rightarrow>
   int list \<Rightarrow> 'c list \<Rightarrow> string option \<Rightarrow> int \<Rightarrow> string option \<Rightarrow> 'o pyval \<Rightarrow> 'a option \<Rightarrow>
   real option \<Rightarrow> real option \<Rightarrow> bool \<Rightarrow> RunConfig option \<Rightarrow> 'fe option \<Rightarrow>
   ('c \<times> real) list option \<Rightarrow> error + ('t, 'c, 'a, 'o, 'ls, 'r, 'fe) DNNClassifier" where
  "DNNClassifier_init mk hidden_units' feature_columns' model_dir n_classes weight_column_name
     optimizer' activation_fn' dropout' gradient_clip_norm' enable_centered_bias config
     feature_engineering_fn embedding_lr_multipliers' =
     (case multi_class_head mk n_classes weight_column_name enable_centered_bias of
        Inl e \<Rightarrow> Inl e
      | Inr h \<Rightarrow>
          Inr \<lparr>self_hidden_units = hidden_units',
               self_feature_columns = feature_columns',
               self_enable_centered_bias = enable_centered_bias,
               self_estimator =
                 \<lparr>est_model_fn = dnn_model_fn,
                  est_model_dir = model_dir,
                  est_config = config,
                  est_params =
                    \<lparr>head = h,
                     hidden_units = hidden_units',
                     feature_columns = feature_columns',
                     optimizer = Some optimizer',
                     activation_fn = Some activation_fn',
                     dropout = Some dropout',
                     gradient_clip_norm = Some gradient_clip_norm',
                     embedding_lr_multipliers = Some embedding_lr_multipliers'\<rparr>,
                  est_feature_engineering_fn = feature_engineering_fn\<rparr>\<rparr>)"

text \<open>
  \<open>[self.get_variable_value(name) for name in names]\<close>: the estimator's
  \<open>get_variable_value\<close> is the parameter \<open>gv\<close>, which may raise (\<open>Inl\<close>); the first
  failure ends the comprehension.
\<close>

fun get_variable_values :: "(string \<Rightarrow> 'e + 'v) \<Rightarrow> string list \<Rightarrow> 'e + 'v list" where
  "get_variable_values gv [] = Inr []"
| "get_variable_values gv (name # names) =
     (case gv name of
        Inl e \<Rightarrow> Inl e
      | Inr v \<Rightarrow>
          (case get_variable_values gv names of Inl e \<Rightarrow> Inl e | Inr vs \<Rightarrow> Inr (v # vs)))"

text \<open>The property \<open>weights_\<close> (lines 473 to 479).\<close>

definition DNNClassifier_weights ::
  "(string \<Rightarrow> 'e + 'v) \<Rightarrow> ('t, 'c, 'a, 'o, 'ls, 'r, 'fe) DNNClassifier \<Rightarrow> 'e + 'v list" where
  "DNNClassifier_weights gv self =
     (case get_variable_values gv
             (map (\<lambda>i. ''dnn/hiddenlayer_'' @ string_of_nat i @ ''/weights'')
                [0..<length (self_hidden_units self)]) of
        Inl e \<Rightarrow> Inl e
      | Inr hiddenlayer_weights \<Rightarrow>
          (case get_variable_values gv [''dnn/logits/weights''] of
             Inl e \<Rightarrow> Inl e
           | Inr logits_weights \<Rightarrow> Inr (hiddenlayer_weights @ logits_weights)))"

text \<open>The property \<open>bias_\<close> (lines 486 to 496).\<close>

definition DNNClassifier_bias ::
  "(string \<Rightarrow> 'e + 'v) \<Rightarrow> ('t, 'c, 'a, 'o, 'ls, 'r, 'fe) DNNClassifier \<Rightarrow> 'e + 'v list" where
  "DNNClassifier_bias gv self =
     (case get_variable_values gv
             (map (\<lambda>i. ''dnn/hiddenlayer_'' @ string_of_nat i @ ''/biases'')
                [0..<length (self_hidden_units self)]) of
        Inl e \<Rightarrow> Inl e
      | Inr hiddenlayer_bias \<Rightarrow>
          (case get_variable_values gv [''dnn/logits/biases''] of
             Inl e \<Rightarrow> Inl e
           | Inr logits_bias \<Rightarrow>
               (case (if self_enable_centered_bias self
                      then get_variable_values gv [CENTERED_BIAS_WEIGHT]
                      else Inr []) of
                  Inl e \<Rightarrow> Inl e
                | Inr centered_bias \<Rightarrow> Inr (hiddenlayer_bias @ logits_bias @ centered_bias))))"

subsection \<open>\<open>DNNRegressor.evaluate\<close> (lines 645 to 662)\<close>

text \<open>A key of the \<open>metrics\<close> dict: a string, a prediction key or a tuple of keys.\<close>

datatype pykey = KStr string | KPredictionKey PredictionKey | KTuple "pykey list"

text \<open>\<open>isinstance(key, tuple)\<close>.\<close>

fun is_tuple :: "pykey \<Rightarrow> bool" where
  "is_tuple (KTuple ks) = True"
| "is_tuple k = False"

text \<open>A value of the \<open>metrics\<close> dict: a \<open>MetricSpec\<close> or anything else (a metric
  function).\<close>

datatype ('s, 'f) metric = MetricSpec 's | MetricFn 'f

text \<open>\<open>isinstance(metric, metric_spec.MetricSpec)\<close>.\<close>

fun is_MetricSpec :: "('s, 'f) metric \<Rightarrow> bool" where
  "is_MetricSpec (MetricSpec s) = True"
| "is_MetricSpec (MetricFn f) = False"

text \<open>
  A dict is the list of its items in iteration order; \<open>d[k] = v\<close> replaces the value of
  a key that is there and appends a new key (\<open>AList.update\<close>). One turn of the loop
  of lines 652 to 657:
\<close>

definition evaluate_step ::
  "(pykey \<times> ('s, 'f) metric) list \<Rightarrow> pykey \<times> ('s, 'f) metric \<Rightarrow> (pykey \<times> ('s, 'f) metric) list" where
  "evaluate_step custom_metrics item =
     (case item of (key, metric) \<Rightarrow>
        if \<not> is_MetricSpec metric \<and> \<not> is_tuple key
        then AList.update (KTuple [key, KPredictionKey SCORES]) metric custom_metrics
        else AList.update key metric custom_metrics)"

text \<open>
  \<open>evaluate\<close>: \<open>metrics\<close> is \<open>None\<close> or a dict, and \<open>if metrics\<close> holds for a dict that
  is not empty. The other arguments (\<open>x\<close>, \<open>y\<close>, \<open>input_fn\<close>, \<open>feed_fn\<close>, \<open>batch_size\<close>,
  \<open>steps\<close>, \<open>name\<close>, \<open>checkpoint_path\<close>) go to the estimator as they are: they are
  \<open>args\<close>, and \<open>estimator_evaluate\<close> is \<open>self._estimator.evaluate\<close>.
\<close>

definition DNNRegressor_evaluate ::
  "('args \<Rightarrow> (pykey \<times> ('s, 'f) metric) list option \<Rightarrow> 'res) \<Rightarrow> 'args \<Rightarrow>
   (pykey \<times> ('s, 'f) metric) list option \<Rightarrow> 'res" where
  "DNNRegressor_evaluate estimator_evaluate args metrics =
     (let custom_metrics =
            (case metrics of
               None \<Rightarrow> []
             | Some ms \<Rightarrow> if ms \<noteq> [] then foldl evaluate_step [] ms else [])
      in estimator_evaluate args (Some custom_metrics))"

subsection \<open>Observing the model function\<close>

text \<open>A head that returns the arguments \<open>head_ops\<close> was called with.\<close>

datatype ('t, 'c, 'a, 'o, 'ls) head_call =
  HeadCall (hc_features: "(string \<times> 't) list") (hc_labels: "'t option") (hc_mode: ModeKeys)
    (hc_train_op_fn: "'ls \<Rightarrow> ('c, 'o, 'ls) optimize_loss") (hc_logits: "('t, 'c, 'a) tensor")

definition recording_head ::
  "int \<Rightarrow> ('t, 'c, 'a, 'o, 'ls, ('t, 'c, 'a, 'o, 'ls) head_call) head" where
  "recording_head n = \<lparr>logits_dimension = n, head_ops = HeadCall\<rparr>"

text \<open>The same hyperparameters, the head replaced by the recording head of the same
  \<open>logits_dimension\<close>.\<close>

definition with_recording_head ::
  "('t, 'c, 'a, 'o, 'ls, 'r) params \<Rightarrow>
   ('t, 'c, 'a, 'o, 'ls, ('t, 'c, 'a, 'o, 'ls) head_call) params" where
  "with_recording_head ps =
     \<lparr>head = recording_head (logits_dimension (head ps)),
      hidden_units = hidden_units ps,
      feature_columns = feature_columns ps,
      optimizer = optimizer ps,
      activation_fn = activation_fn ps,
      dropout = dropout ps,
      gradient_clip_norm = gradient_clip_norm ps,
      embedding_lr_multipliers = embedding_lr_multipliers ps\<rparr>"

text \<open>What \<open>_dnn_model_fn\<close> hands to \<open>head.head_ops\<close>.\<close>

definition model_head_call ::
  "'t features \<Rightarrow> 't option \<Rightarrow> ModeKeys \<Rightarrow> ('t, 'c, 'a, 'o, 'ls, 'r) params \<Rightarrow>
   RunConfig option \<Rightarrow> ('t, 'c, 'a, 'o, 'ls) head_call" where
  "model_head_call features labels mode ps config =
     fst (dnn_model_fn features labels mode (with_recording_head ps) config)"

text \<open>The number of \<open>layers.dropout\<close> calls between the input layer and a tensor.\<close>

fun dropout_calls :: "('t, 'c, 'a) tensor \<Rightarrow> nat" where
  "dropout_calls (FeatureTensor t) = 0"
| "dropout_calls (InputFromFeatureColumns fs cs ws sc) = 0"
| "dropout_calls (FullyConnected x n act vs sc) = dropout_calls x"
| "dropout_calls (Dropout x keep_prob) = Suc (dropout_calls x)"
| "dropout_calls (ZeroFraction x) = dropout_calls x"

text \<open>The variable scopes (name and partitioner) of the fully connected layers
  between the input layer and a tensor, the first layer first.\<close>

fun fully_connected_scopes :: "('t, 'c, 'a) tensor \<Rightarrow> (string \<times> partitioner) list" where
  "fully_connected_scopes (FeatureTensor t) = []"
| "fully_connected_scopes (InputFromFeatureColumns fs cs ws sc) = []"
| "fully_connected_scopes (FullyConnected x n act vs sc) =
     fully_connected_scopes x @ [(scope_name sc, scope_partitioner sc)]"
| "fully_connected_scopes (Dropout x keep_prob) = fully_connected_scopes x"
| "fully_connected_scopes (ZeroFraction x) = fully_connected_scopes x"

text \<open>The input layer under a tensor: the features it encodes, and its variable scope
  (name and partitioner).\<close>

fun input_layer :: "('t, 'c, 'a) tensor \<Rightarrow> ((string \<times> 't) list \<times> string \<times> partitioner) option" where
  "input_layer (FeatureTensor t) = None"
| "input_layer (InputFromFeatureColumns fs cs ws sc) =
     Some (fs, scope_name sc, scope_partitioner sc)"
| "input_layer (FullyConnected x n act vs sc) = input_layer x"
| "input_layer (Dropout x keep_prob) = input_layer x"
| "input_layer (ZeroFraction x) = input_layer x"

text \<open>
  What a layer produces, as the next layer sees it: the encoded input, the output of the
  fully connected call opened under a scope, or \<open>layers.dropout\<close> applied to such an
  output with a \<open>keep_prob\<close>.
\<close>

datatype output_kind =
    InputLayerOutput
  | LayerOutput string
  | DroppedLayerOutput string real
  | OtherOutput

fun layer_output :: "('t, 'c, 'a) tensor \<Rightarrow> output_kind" where
  "layer_output (InputFromFeatureColumns fs cs ws sc) = InputLayerOutput"
| "layer_output (FullyConnected x n act vs sc) = LayerOutput (scope_name sc)"
| "layer_output (Dropout (FullyConnected x n act vs sc) keep_prob) =
     DroppedLayerOutput (scope_name sc) keep_prob"
| "layer_output t = OtherOutput"

text \<open>The tensors the fully connected layers under a tensor take as their inputs, the
  first layer's input first.\<close>

fun layer_inputs :: "('t, 'c, 'a) tensor \<Rightarrow> ('t, 'c, 'a) tensor list" where
  "layer_inputs (FeatureTensor t) = []"
| "layer_inputs (InputFromFeatureColumns fs cs ws sc) = []"
| "layer_inputs (FullyConnected x n act vs sc) = layer_inputs x @ [x]"
| "layer_inputs (Dropout x keep_prob) = layer_inputs x"
| "layer_inputs (ZeroFraction x) = layer_inputs x"

text \<open>The \<open>metrics\<close> argument \<open>self._estimator.evaluate\<close> receives from
  \<open>DNNRegressor.evaluate\<close>.\<close>

definition forwarded_metrics ::
  "(pykey \<times> ('s, 'f) metric) list option \<Rightarrow> (pykey \<times> ('s, 'f) metric) list option" where
  "forwarded_metrics metrics = DNNRegressor_evaluate (\<lambda>args ms. ms) () metrics"

text \<open>
  The rewriting of one entry in the words of the specification: an entry whose value is
  not a \<open>MetricSpec\<close> and whose key is not a tuple goes to the pair of its key and
  \<open>SCORES\<close>; any other entry keeps its key.
\<close>

definition rekeyed :: "pykey \<times> ('s, 'f) metric \<Rightarrow> pykey \<times> ('s, 'f) metric" where
  "rekeyed item =
     (if \<not> is_MetricSpec (snd item) \<and> \<not> is_tuple (fst item)
      then (KTuple [fst item, KPredictionKey SCORES], snd item)
      else item)"

subsection \<open>Concrete inputs\<close>

text \<open>Hyperparameters with two hidden layers, a dropout rate and the given
  \<open>optimizer\<close> entry.\<close>

definition example_params ::
  "string pyval option \<Rightarrow>
   (nat, string, string, string, nat, (nat, string, string, string, nat) head_call) params" where
  "example_params opt =
     \<lparr>head = recording_head 3,
      hidden_units = [10, 20],
      feature_columns = [''age''],
      optimizer = opt,
      activation_fn = Some (Some ''relu''),
      dropout = Some (Some (1 / 2)),
      gradient_clip_norm = Some None,
      embedding_lr_multipliers = Some None\<rparr>"

text \<open>The head factory of the examples: the recording head.\<close>

definition example_mk ::
  "int \<Rightarrow> string option \<Rightarrow> bool \<Rightarrow>
   (nat, string, string, string, nat, (nat, string, string, string, nat) head_call) head" where
  "example_mk n w e = recording_head n"

text \<open>A classifier with three hidden layers and centered bias, for \<open>n_classes\<close>
  classes.\<close>

definition example_classifier ::
  "int \<Rightarrow> error +
     (nat, string, string, string, nat, (nat, string, string, string, nat) head_call, unit)
       DNNClassifier" where
  "example_classifier n_classes =
     DNNClassifier_init example_mk [10, 20, 10] [''age''] None n_classes None
       PyNone (Some ''relu'') None None True None None None"

section \<open>Properties\<close>

subsection \<open>The layer stack\<close>

lemma hidden_layers_dropout_calls:
  "dropout_calls (fst (hidden_layers part act dr mode ps i hus (net, acc))) =
     dropout_calls net + (if mode = TRAIN \<and> dr \<noteq> None then length hus else 0)"
  by (induction hus arbitrary: i net acc) (auto simp: Let_def split: option.splits)

lemma hidden_layers_scopes:
  "fully_connected_scopes (fst (hidden_layers part act dr mode ps i hus (net, acc))) =
     fully_connected_scopes net @
     map (\<lambda>k. (ps @ ''/hiddenlayer_'' @ string_of_nat k, part)) [i..<i + length hus]"
proof (induction hus arbitrary: i net acc)
  case Nil
  then show ?case by simp
next
  case (Cons h hus)
  have "[i..<i + length (h # hus)] = i # [Suc i..<Suc i + length hus]"
    by (subst upt_rec) simp
  then show ?case using Cons.IH
    by (simp add: Let_def split: option.splits del: upt_Suc)
qed

lemma hidden_layers_input_layer:
  "input_layer (fst (hidden_layers part act dr mode ps i hus (net, acc))) = input_layer net"
  by (induction hus arbitrary: i net acc) (auto simp: Let_def split: option.splits)

lemma hidden_layers_not_train:
  "mode \<noteq> TRAIN \<Longrightarrow>
   hidden_layers part act (Some d) mode ps i hus st = hidden_layers part act None mode ps i hus st"
  by (induction hus arbitrary: i st) (auto simp: Let_def)

lemma hidden_layers_outputs:
  "map layer_output
     (layer_inputs (fst (hidden_layers part act dr mode ps i hus (net, acc))) @
      [fst (hidden_layers part act dr mode ps i hus (net, acc))]) =
   map layer_output (layer_inputs net @ [net]) @
   map (\<lambda>k. case dr of
               Some d \<Rightarrow>
                 if mode = TRAIN
                 then DroppedLayerOutput (ps @ ''/hiddenlayer_'' @ string_of_nat k) (1 - d)
                 else LayerOutput (ps @ ''/hiddenlayer_'' @ string_of_nat k)
             | None \<Rightarrow> LayerOutput (ps @ ''/hiddenlayer_'' @ string_of_nat k))
     [i..<i + length hus]"
proof (induction hus arbitrary: i net acc)
  case Nil
  then show ?case by simp
next
  case (Cons h hus)
  have "[i..<i + length (h # hus)] = i # [Suc i..<Suc i + length hus]"
    by (subst upt_rec) simp
  then show ?case using Cons.IH
    by (simp add: Let_def split: option.splits del: upt_Suc)
qed

subsection \<open>What the model function gives to the head\<close>

lemma model_head_call_eq:
  "model_head_call features labels mode ps config =
     (let nps = (case config of Some c \<Rightarrow> num_ps_replicas c | None \<Rightarrow> 0);
          hp = \<lparr>max_partitions = nps, min_slice_size = None\<rparr>;
          fs = get_feature_dict features;
          net0 = InputFromFeatureColumns fs (feature_columns ps) [''dnn'']
                   (VariableScope ''dnn/input_from_feature_columns'' (map (FeatureTensor \<circ> snd) fs)
                      \<lparr>max_partitions = nps, min_slice_size = Some 67108864\<rparr>);
          net = fst (hidden_layers hp (dict_get (activation_fn ps) None)
                       (dict_get (dropout ps) None) mode ''dnn'' 0 (hidden_units ps) (net0, []))
      in HeadCall fs labels mode
           (train_op_fn (py_or (dict_get (optimizer ps) PyNone) (PyStr ''Adagrad''))
              (dict_get (embedding_lr_multipliers ps) (Some []))
              (dict_get (gradient_clip_norm ps) None) ''dnn'' ''dnn/input_from_feature_columns'')
           (FullyConnected net (logits_dimension (head ps)) None [''dnn'']
              (VariableScope ''dnn/logits'' [net] hp)))"
  by (simp add: model_head_call_def dnn_model_fn_def with_recording_head_def recording_head_def
      Let_def split_def)

text \<open>Any head is called with the arguments the recording head records.\<close>

lemma dnn_model_fn_head_call:
  "fst (dnn_model_fn features labels mode ps config) =
     (case model_head_call features labels mode ps config of
        HeadCall fs ls m t lg \<Rightarrow> head_ops (head ps) fs ls m t lg)"
  by (simp add: model_head_call_def dnn_model_fn_def with_recording_head_def recording_head_def
      Let_def split_def)

lemma dnn_model_fn_dropout_not_train:
  assumes "mode \<noteq> TRAIN"
  shows "dnn_model_fn features labels mode (ps\<lparr>dropout := Some (Some d)\<rparr>) config =
         dnn_model_fn features labels mode (ps\<lparr>dropout := None\<rparr>) config"
    and "dnn_model_fn features labels mode (ps\<lparr>dropout := Some None\<rparr>) config =
         dnn_model_fn features labels mode (ps\<lparr>dropout := None\<rparr>) config"
  using assms by (simp_all add: dnn_model_fn_def dict_get_def hidden_layers_not_train)

text \<open>
  Claim C1. In the graph the head receives, the input of the first hidden layer is the
  encoded input, and what each hidden layer \<open>i\<close> hands to the next layer (the last one
  to the logits layer) is \<open>layers.dropout\<close> with \<open>keep_prob = 1 - dropout\<close> applied to
  the output of the fully connected call under \<open>dnn/hiddenlayer_<i>\<close> when the mode is
  TRAIN and a dropout rate that is not \<open>None\<close> is configured, and that output itself
  otherwise; the logits are the output of the fully connected call under \<open>dnn/logits\<close>,
  never a dropout. So the graph holds one \<open>layers.dropout\<close> call for each hidden layer
  in the first case and none in the second. In the modes EVAL and PREDICT the model
  function returns, for every configured rate, what it returns when \<open>dropout\<close> is
  \<open>None\<close> or the key is absent: the same head call and the same summaries.
\<close>

theorem dropout_only_when_training:
  "dropout_calls (hc_logits (model_head_call features labels mode ps config)) =
     (if mode = TRAIN \<and> dict_get (dropout ps) None \<noteq> None then length (hidden_units ps) else 0)
   \<and> map layer_output (layer_inputs (hc_logits (model_head_call features labels mode ps config))) =
       InputLayerOutput #
       map (\<lambda>i. case dict_get (dropout ps) None of
                   Some rate \<Rightarrow>
                     if mode = TRAIN
                     then DroppedLayerOutput (''dnn/hiddenlayer_'' @ string_of_nat i) (1 - rate)
                     else LayerOutput (''dnn/hiddenlayer_'' @ string_of_nat i)
                 | None \<Rightarrow> LayerOutput (''dnn/hiddenlayer_'' @ string_of_nat i))
         [0..<length (hidden_units ps)]
   \<and> layer_output (hc_logits (model_head_call features labels mode ps config)) =
       LayerOutput ''dnn/logits''
   \<and> dnn_model_fn features labels EVAL (ps\<lparr>dropout := Some (Some d)\<rparr>) config =
       dnn_model_fn features labels EVAL (ps\<lparr>dropout := Some None\<rparr>) config
   \<and> dnn_model_fn features labels EVAL (ps\<lparr>dropout := Some (Some d)\<rparr>) config =
       dnn_model_fn features labels EVAL (ps\<lparr>dropout := None\<rparr>) config
   \<and> dnn_model_fn features labels PREDICT (ps\<lparr>dropout := Some (Some d)\<rparr>) config =
       dnn_model_fn features labels PREDICT (ps\<lparr>dropout := Some None\<rparr>) config
   \<and> dnn_model_fn features labels PREDICT (ps\<lparr>dropout := Some (Some d)\<rparr>) config =
       dnn_model_fn features labels PREDICT (ps\<lparr>dropout := None\<rparr>) config"
proof -
  have count: "dropout_calls (hc_logits (model_head_call features labels mode ps config)) =
     (if mode = TRAIN \<and> dict_get (dropout ps) None \<noteq> None then length (hidden_units ps) else 0)"
    by (simp add: model_head_call_eq Let_def hidden_layers_dropout_calls)
  have position:
    "map layer_output (layer_inputs (hc_logits (model_head_call features labels mode ps config))) =
       InputLayerOutput #
       map (\<lambda>i. case dict_get (dropout ps) None of
                   Some rate \<Rightarrow>
                     if mode = TRAIN
                     then DroppedLayerOutput (''dnn/hiddenlayer_'' @ string_of_nat i) (1 - rate)
                     else LayerOutput (''dnn/hiddenlayer_'' @ string_of_nat i)
                 | None \<Rightarrow> LayerOutput (''dnn/hiddenlayer_'' @ string_of_nat i))
         [0..<length (hidden_units ps)]"
    by (simp add: model_head_call_eq Let_def hidden_layers_outputs [simplified] split: option.splits)
  have logits: "layer_output (hc_logits (model_head_call features labels mode ps config)) =
       LayerOutput ''dnn/logits''"
    by (simp add: model_head_call_eq Let_def)
  from count position logits show ?thesis
    by (simp add: dnn_model_fn_dropout_not_train)
qed

text \<open>The claim at two hidden layers and the rate \<open>1/2\<close>: the layer outputs and the
  number of dropout calls in the modes TRAIN, EVAL and PREDICT.\<close>

theorem dropout_only_when_training_witness:
  "map layer_output (layer_inputs (hc_logits
        (model_head_call (FeaturesTensor 7) None TRAIN (example_params None) None))) =
       [InputLayerOutput, DroppedLayerOutput ''dnn/hiddenlayer_0'' (1 / 2),
        DroppedLayerOutput ''dnn/hiddenlayer_1'' (1 / 2)]
   \<and> map layer_output (layer_inputs (hc_logits
        (model_head_call (FeaturesTensor 7) None EVAL (example_params None) None))) =
       [InputLayerOutput, LayerOutput ''dnn/hiddenlayer_0'', LayerOutput ''dnn/hiddenlayer_1'']
   \<and> map layer_output (layer_inputs (hc_logits
        (model_head_call (FeaturesTensor 7) None PREDICT (example_params None) None))) =
       [InputLayerOutput, LayerOutput ''dnn/hiddenlayer_0'', LayerOutput ''dnn/hiddenlayer_1'']
   \<and> dropout_calls (hc_logits
        (model_head_call (FeaturesTensor 7) None TRAIN (example_params None) None)) = 2
   \<and> dropout_calls (hc_logits
        (model_head_call (FeaturesTensor 7) None EVAL (example_params None) None)) = 0
   \<and> dropout_calls (hc_logits
        (model_head_call (FeaturesTensor 7) None PREDICT (example_params None) None)) = 0"
proof -
  have digits: "string_of_nat 0 = ''0''" "string_of_nat (Suc 0) = ''1''"
    by (simp_all add: string_of_nat.simps)
  have two: "[0..<length [10, 20 :: int]] = [0, Suc 0]"
    by (simp add: upt_rec)
  show ?thesis
    using dropout_only_when_training [of "FeaturesTensor 7" None TRAIN "example_params None" None]
      dropout_only_when_training [of "FeaturesTensor 7" None EVAL "example_params None" None]
      dropout_only_when_training [of "FeaturesTensor 7" None PREDICT "example_params None" None]
    by (simp add: example_params_def dict_get_def two digits)
qed

subsection \<open>The training op\<close>

text \<open>
  Claim C2. The \<open>train_op_fn\<close> the head receives calls \<open>optimize_loss\<close> with the loss,
  the global step, the learning rate 0.05, the configured optimizer (a callable one
  invoked), \<open>"Adagrad"\<close> when the optimizer is \<open>None\<close> or absent, the configured
  \<open>gradient_clip_norm\<close> as \<open>clip_gradients\<close>, and as \<open>gradient_multipliers\<close> what
  \<open>_extract_embedding_lr_multipliers\<close> makes of the configured multipliers under the
  scopes \<open>dnn\<close> and \<open>dnn/input_from_feature_columns\<close>.
\<close>

theorem train_op_fn_optimize_loss:
  "hc_train_op_fn (model_head_call features labels mode ps config) loss =
     \<lparr>ol_loss = loss,
      ol_global_step = GetGlobalStep,
      ol_learning_rate = 0.05,
      ol_optimizer = get_optimizer (py_or (dict_get (optimizer ps) PyNone) (PyStr ''Adagrad'')),
      ol_gradient_multipliers =
        ExtractEmbeddingLrMultipliers (dict_get (embedding_lr_multipliers ps) (Some []))
          ''dnn'' ''dnn/input_from_feature_columns'',
      ol_clip_gradients = dict_get (gradient_clip_norm ps) None,
      ol_name = ''dnn'',
      ol_summaries = []\<rparr>
   \<and> ol_optimizer (hc_train_op_fn
        (model_head_call features labels mode (ps\<lparr>optimizer := Some PyNone\<rparr>) config) loss) =
       PyStr ''Adagrad''
   \<and> ol_optimizer (hc_train_op_fn
        (model_head_call features labels mode (ps\<lparr>optimizer := None\<rparr>) config) loss) =
       PyStr ''Adagrad''
   \<and> ol_optimizer (hc_train_op_fn
        (model_head_call features labels mode (ps\<lparr>optimizer := Some (PyObj obj)\<rparr>) config) loss) =
       PyObj obj
   \<and> ol_optimizer (hc_train_op_fn
        (model_head_call features labels mode (ps\<lparr>optimizer := Some (PyStr (c # cs))\<rparr>) config) loss) =
       PyStr (c # cs)
   \<and> ol_clip_gradients (hc_train_op_fn
        (model_head_call features labels mode (ps\<lparr>gradient_clip_norm := Some (Some g)\<rparr>) config)
        loss) = Some g
   \<and> ol_gradient_multipliers (hc_train_op_fn
        (model_head_call features labels mode (ps\<lparr>embedding_lr_multipliers := Some (Some ms)\<rparr>)
           config) loss) =
       ExtractEmbeddingLrMultipliers (Some ms) ''dnn'' ''dnn/input_from_feature_columns''"
  by (simp add: model_head_call_eq Let_def train_op_fn_def LEARNING_RATE_def dict_get_def
      py_or_def get_optimizer_def)

text \<open>
  Claim C10. Every false value of the \<open>optimizer\<close> hyperparameter selects \<open>"Adagrad"\<close>:
  an absent key, \<open>None\<close>, the empty string and \<open>0\<close> among them.
\<close>

theorem falsy_optimizer_defaults_to_adagrad:
  "(\<not> py_truthy (dict_get (optimizer ps) PyNone) \<longrightarrow>
      ol_optimizer (hc_train_op_fn (model_head_call features labels mode ps config) loss) =
        PyStr ''Adagrad'')
   \<and> ol_optimizer (hc_train_op_fn
        (model_head_call features labels mode (ps\<lparr>optimizer := None\<rparr>) config) loss) =
       PyStr ''Adagrad''
   \<and> ol_optimizer (hc_train_op_fn
        (model_head_call features labels mode (ps\<lparr>optimizer := Some PyNone\<rparr>) config) loss) =
       PyStr ''Adagrad''
   \<and> ol_optimizer (hc_train_op_fn
        (model_head_call features labels mode (ps\<lparr>optimizer := Some (PyStr '''')\<rparr>) config) loss) =
       PyStr ''Adagrad''
   \<and> ol_optimizer (hc_train_op_fn
        (model_head_call features labels mode (ps\<lparr>optimizer := Some (PyInt 0)\<rparr>) config) loss) =
       PyStr ''Adagrad''"
  by (simp add: model_head_call_eq Let_def train_op_fn_def dict_get_def
      py_or_def get_optimizer_def)

theorem falsy_optimizer_defaults_to_adagrad_witness:
  "\<not> py_truthy (dict_get (optimizer (example_params (Some (PyBool False)))) PyNone)
   \<and> ol_optimizer (hc_train_op_fn
        (model_head_call (FeaturesTensor 0) None TRAIN (example_params (Some (PyBool False))) None)
        0) = PyStr ''Adagrad''"
  using falsy_optimizer_defaults_to_adagrad
    [of "example_params (Some (PyBool False))" "FeaturesTensor 0" None TRAIN None 0]
  by (simp add: example_params_def dict_get_def)

lemma train_op_fn_callable:
  "\<not> callable r \<Longrightarrow>
   train_op_fn (PyCallable r) multipliers clip_norm parent_scope input_layer_scope =
   train_op_fn r multipliers clip_norm parent_scope input_layer_scope"
  by (intro ext) (simp add: train_op_fn_def get_optimizer_def)

text \<open>
  Claim C4, as stated, fails: the default \<open>"Adagrad"\<close> is chosen on the hyperparameter
  itself, before a callable is invoked. A factory that returns \<open>None\<close> is a true value,
  so \<open>optimize_loss\<close> receives \<open>None\<close>; passing the \<open>None\<close> it returns gives
  \<open>"Adagrad"\<close>.
\<close>

theorem callable_optimizer_counterexample:
  "ol_optimizer (hc_train_op_fn
     (model_head_call (FeaturesTensor 0) None TRAIN (example_params (Some (PyCallable PyNone))) None) 0)
   \<noteq> ol_optimizer (hc_train_op_fn
     (model_head_call (FeaturesTensor 0) None TRAIN (example_params (Some PyNone)) None) 0)"
  by (simp add: model_head_call_eq Let_def train_op_fn_def dict_get_def py_or_def
      get_optimizer_def example_params_def)

text \<open>
  Claim C4, amended. For a zero-argument callable whose result is a true value that is
  not callable itself (an optimizer instance, a non-empty optimizer name), the model
  function returns what it returns for the result passed directly. \<open>_get_optimizer\<close>
  invokes a callable argument and returns any other argument unchanged.
\<close>

theorem callable_optimizer_invoked:
  "(py_truthy r \<and> \<not> callable r \<longrightarrow>
      dnn_model_fn features labels mode (ps\<lparr>optimizer := Some (PyCallable r)\<rparr>) config =
      dnn_model_fn features labels mode (ps\<lparr>optimizer := Some r\<rparr>) config)
   \<and> get_optimizer (PyCallable r) = r
   \<and> (\<not> callable (v :: 'o pyval) \<longrightarrow> get_optimizer v = v)"
proof -
  have "dnn_model_fn features labels mode (ps\<lparr>optimizer := Some (PyCallable r)\<rparr>) config =
        dnn_model_fn features labels mode (ps\<lparr>optimizer := Some r\<rparr>) config"
    if "py_truthy r" "\<not> callable r"
    using that by (simp add: dnn_model_fn_def dict_get_def py_or_def train_op_fn_callable)
  then show ?thesis
    by (simp add: get_optimizer_def)
qed

theorem callable_optimizer_invoked_witness:
  "py_truthy (PyObj ''sgd'' :: string pyval) \<and> \<not> callable (PyObj ''sgd'' :: string pyval)
   \<and> dnn_model_fn (FeaturesTensor 0) None TRAIN (example_params (Some (PyCallable (PyObj ''sgd'')))) None =
      dnn_model_fn (FeaturesTensor 0) None TRAIN (example_params (Some (PyObj ''sgd''))) None
   \<and> \<not> callable (PyStr ''SGD'' :: string pyval)
   \<and> get_optimizer (PyStr ''SGD'' :: string pyval) = PyStr ''SGD''"
proof -
  have upd: "(example_params x)\<lparr>optimizer := y\<rparr> = example_params y" for x y
    by (simp add: example_params_def)
  show ?thesis
    using callable_optimizer_invoked [of "PyObj ''sgd'' :: string pyval" "FeaturesTensor 0" None TRAIN
      "example_params None" None "PyStr ''SGD'' :: string pyval"]
    by (simp add: upd)
qed

subsection \<open>Features and partitioning\<close>

text \<open>
  Claim C5. A \<open>features\<close> argument that is not a dict becomes the dict with the single
  key \<open>""\<close> bound to it, a dict stays as it is; the head and the input layer receive
  the normalized dict.
\<close>

theorem features_normalized:
  "get_feature_dict (FeaturesTensor t) = [('''', t)]
   \<and> get_feature_dict (FeaturesDict d) = d
   \<and> hc_features (model_head_call (FeaturesTensor t) labels mode ps config) = [('''', t)]
   \<and> map_option fst (input_layer (hc_logits (model_head_call (FeaturesTensor t) labels mode ps config)))
       = Some [('''', t)]
   \<and> hc_features (model_head_call (FeaturesDict d) labels mode ps config) = d
   \<and> map_option fst (input_layer (hc_logits (model_head_call (FeaturesDict d) labels mode ps config)))
       = Some d"
  by (simp add: model_head_call_eq Let_def hidden_layers_input_layer)

text \<open>
  Claim C8. The partitioners depend on the runtime config only: \<open>max_partitions\<close> is
  \<open>config.num_ps_replicas\<close>, or 0 without a config; the input layer's partitioner has
  \<open>min_slice_size\<close> 64 MiB, and the partitioner of every hidden layer and of the logits
  layer is given no \<open>min_slice_size\<close>.
\<close>

theorem partitioning_from_config:
  "input_layer (hc_logits (model_head_call features labels mode ps config)) =
     Some (get_feature_dict features, ''dnn/input_from_feature_columns'',
           \<lparr>max_partitions = (case config of None \<Rightarrow> 0 | Some c \<Rightarrow> num_ps_replicas c),
            min_slice_size = Some (64 * 2 ^ 20)\<rparr>)
   \<and> map snd (fully_connected_scopes (hc_logits (model_head_call features labels mode ps config))) =
       replicate (Suc (length (hidden_units ps)))
         \<lparr>max_partitions = (case config of None \<Rightarrow> 0 | Some c \<Rightarrow> num_ps_replicas c),
          min_slice_size = None\<rparr>"
  by (simp add: model_head_call_eq Let_def hidden_layers_input_layer hidden_layers_scopes
      comp_def map_replicate_const replicate_append_same)

subsection \<open>Variable names\<close>

lemma get_variable_values_append:
  "get_variable_values gv (xs @ ys) =
     (case get_variable_values gv xs of
        Inl e \<Rightarrow> Inl e
      | Inr vs \<Rightarrow> (case get_variable_values gv ys of Inl e \<Rightarrow> Inl e | Inr ws \<Rightarrow> Inr (vs @ ws)))"
  by (induction xs) (auto split: sum.splits)

lemma get_variable_values_total:
  "get_variable_values (\<lambda>name. Inr (g name)) names = Inr (map g names)"
  by (induction names) auto

lemma model_scope_names:
  "map fst (fully_connected_scopes (hc_logits (model_head_call features labels mode ps config))) =
     map (\<lambda>i. ''dnn/hiddenlayer_'' @ string_of_nat i) [0..<length (hidden_units ps)] @
     [''dnn/logits'']"
  by (simp add: model_head_call_eq Let_def hidden_layers_scopes comp_def)

lemma string_of_nat_nonempty: "string_of_nat n \<noteq> []"
  by (subst string_of_nat.simps) simp

lemma digit_inj:
  "a < 10 \<Longrightarrow> b < 10 \<Longrightarrow> ''0123456789'' ! a = ''0123456789'' ! b \<Longrightarrow> a = b"
proof -
  have d: "distinct ''0123456789''" by simp
  assume "a < 10" "b < 10" "''0123456789'' ! a = ''0123456789'' ! b"
  then show ?thesis using d nth_eq_iff_index_eq [OF d, of a b] by simp
qed

lemma string_of_nat_inj: "string_of_nat m = string_of_nat n \<Longrightarrow> m = n"
proof (induction m arbitrary: n rule: string_of_nat.induct)
  case (1 m)
  show ?case
  proof (cases "m < 10")
    case True
    show ?thesis
    proof (cases "n < 10")
      case n: True
      from "1.prems" True n have "''0123456789'' ! m = ''0123456789'' ! n"
        by (simp add: string_of_nat.simps [of m] string_of_nat.simps [of n])
      then show ?thesis using True n by (rule digit_inj [rotated 2])
    next
      case n: False
      from "1.prems" True n show ?thesis
        using string_of_nat_nonempty [of "n div 10"]
        by (simp add: string_of_nat.simps [of m] string_of_nat.simps [of n])
    qed
  next
    case False
    show ?thesis
    proof (cases "n < 10")
      case n: True
      from "1.prems" False n show ?thesis
        using string_of_nat_nonempty [of "m div 10"]
        by (simp add: string_of_nat.simps [of m] string_of_nat.simps [of n])
    next
      case n: False
      from "1.prems" False n
      have eq: "string_of_nat (m div 10) = string_of_nat (n div 10)"
        and dg: "''0123456789'' ! (m mod 10) = ''0123456789'' ! (n mod 10)"
        by (simp_all add: string_of_nat.simps [of m] string_of_nat.simps [of n])
      from "1.IH" [OF False eq] have "m div 10 = n div 10" .
      moreover from dg have "m mod 10 = n mod 10"
        by (intro digit_inj) simp_all
      ultimately show ?thesis
        by (metis div_mult_mod_eq)
    qed
  qed
qed

text \<open>
  Claim C6. The fully connected layers of the graph are opened, in order, under the
  scopes \<open>dnn/hiddenlayer_<i>\<close> for each index \<open>i\<close> into \<open>hidden_units\<close> and then
  \<open>dnn/logits\<close>, and these names are pairwise different. For a classifier that
  \<open>__init__\<close> has built, \<open>weights_\<close> looks up \<open>weights\<close> under each of these scopes in
  this order, and \<open>bias_\<close> looks up \<open>biases\<close> under each of them and then
  \<open>centered_bias_weight\<close> when \<open>enable_centered_bias\<close> was set.
\<close>

theorem variable_names_by_layer:
  "map fst (fully_connected_scopes (hc_logits (model_head_call features labels mode ps config))) =
     map (\<lambda>i. ''dnn/hiddenlayer_'' @ string_of_nat i) [0..<length (hidden_units ps)] @
     [''dnn/logits'']
   \<and> distinct (map fst (fully_connected_scopes
        (hc_logits (model_head_call features labels mode ps config))))
   \<and> (DNNClassifier_init mk hu fc model_dir n_classes weight_column_name opt act dr gcn ecb
        config' fe elm = Inr clf \<longrightarrow>
      DNNClassifier_weights gv clf =
        get_variable_values gv (map (\<lambda>s. s @ ''/weights'')
          (map fst (fully_connected_scopes (hc_logits
             (model_head_call features labels mode (est_params (self_estimator clf)) config)))))
      \<and> DNNClassifier_bias gv clf =
        get_variable_values gv (map (\<lambda>s. s @ ''/biases'')
          (map fst (fully_connected_scopes (hc_logits
             (model_head_call features labels mode (est_params (self_estimator clf)) config))))
          @ (if ecb then [''centered_bias_weight''] else [])))"
proof -
  let ?names = "map (\<lambda>i. ''dnn/hiddenlayer_'' @ string_of_nat i) [0..<length (hidden_units ps)]"
  have "distinct ?names"
    by (auto simp: distinct_map inj_on_def dest: string_of_nat_inj)
  moreover have "''dnn/logits'' \<notin> set ?names"
    by auto
  ultimately have dist: "distinct (?names @ [''dnn/logits''])"
    by simp
  have acc: "DNNClassifier_weights gv clf =
        get_variable_values gv (map (\<lambda>s. s @ ''/weights'')
          (map fst (fully_connected_scopes (hc_logits
             (model_head_call features labels mode (est_params (self_estimator clf)) config)))))
      \<and> DNNClassifier_bias gv clf =
        get_variable_values gv (map (\<lambda>s. s @ ''/biases'')
          (map fst (fully_connected_scopes (hc_logits
             (model_head_call features labels mode (est_params (self_estimator clf)) config))))
          @ (if ecb then [''centered_bias_weight''] else []))"
    if init: "DNNClassifier_init mk hu fc model_dir n_classes weight_column_name opt act dr gcn ecb
        config' fe elm = Inr clf"
  proof -
    from init have hu: "self_hidden_units clf = hu" "hidden_units (est_params (self_estimator clf)) = hu"
      and ecb: "self_enable_centered_bias clf = ecb"
      by (auto simp: DNNClassifier_init_def split: sum.splits)
    show ?thesis
      by (simp add: model_scope_names DNNClassifier_weights_def DNNClassifier_bias_def hu ecb
          get_variable_values_append comp_def CENTERED_BIAS_WEIGHT_def split: sum.splits)
  qed
  show ?thesis
    using dist acc by (simp add: model_scope_names)
qed

theorem variable_names_by_layer_witness:
  "(case example_classifier 3 of
      Inl e \<Rightarrow> False
    | Inr clf \<Rightarrow>
        DNNClassifier_weights (\<lambda>name. Inr name :: unit + string) clf =
          Inr [''dnn/hiddenlayer_0/weights'', ''dnn/hiddenlayer_1/weights'',
               ''dnn/hiddenlayer_2/weights'', ''dnn/logits/weights'']
        \<and> DNNClassifier_bias (\<lambda>name. Inr name :: unit + string) clf =
          Inr [''dnn/hiddenlayer_0/biases'', ''dnn/hiddenlayer_1/biases'',
               ''dnn/hiddenlayer_2/biases'', ''dnn/logits/biases'', ''centered_bias_weight''])"
proof -
  obtain clf where init: "example_classifier 3 = Inr clf"
    by (simp add: example_classifier_def DNNClassifier_init_def multi_class_head_def)
  then have hu: "hidden_units (est_params (self_estimator clf)) = [10, 20, 10]"
    by (auto simp: example_classifier_def DNNClassifier_init_def multi_class_head_def)
  have digits: "string_of_nat 0 = ''0''" "string_of_nat (Suc 0) = ''1''"
    "string_of_nat (Suc (Suc 0)) = ''2''"
    by (simp_all add: string_of_nat.simps)
  have three: "[0..<length [10, 20, 10 :: int]] = [0, Suc 0, Suc (Suc 0)]"
    by (simp add: upt_rec)
  from init variable_names_by_layer [of "FeaturesTensor 0" None TRAIN "example_params None" None
      example_mk "[10, 20, 10]" "[''age'']" None 3 None PyNone "Some ''relu''"
      None None True None "None :: unit option" None clf "\<lambda>name. Inr name :: unit + string"]
  show ?thesis
    by (simp add: example_classifier_def model_scope_names hu three digits)
qed

subsection \<open>Construction of a classifier\<close>

text \<open>
  Claim C3. With \<open>n_classes < 2\<close> the construction of the head fails, and with it
  \<open>DNNClassifier.__init__\<close>, whatever the other arguments are: no classifier exists on
  which \<open>fit\<close> could be called.
\<close>

theorem n_classes_below_two_fails:
  "n_classes < 2 \<Longrightarrow>
   DNNClassifier_init mk hidden_units' feature_columns' model_dir n_classes weight_column_name
     optimizer' activation_fn' dropout' gradient_clip_norm' enable_centered_bias config
     feature_engineering_fn embedding_lr_multipliers' = Inl ValueError \<and>
   multi_class_head mk n_classes weight_column_name enable_centered_bias = Inl ValueError"
  by (simp add: DNNClassifier_init_def multi_class_head_def)

theorem n_classes_below_two_fails_witness:
  "(1::int) < 2 \<and> example_classifier 1 = Inl ValueError \<and> example_classifier 0 = Inl ValueError"
  using n_classes_below_two_fails [of 1 example_mk "[10, 20, 10]" "[''age'']"
      None None PyNone "Some ''relu''" None None True None "None :: unit option" None]
    n_classes_below_two_fails [of 0 example_mk "[10, 20, 10]" "[''age'']"
      None None PyNone "Some ''relu''" None None True None "None :: unit option" None]
  by (simp add: example_classifier_def)

subsection \<open>The metrics of \<open>DNNRegressor.evaluate\<close>\<close>

lemma evaluate_step_rekeyed:
  "evaluate_step acc item = AList.update (fst (rekeyed item)) (snd (rekeyed item)) acc"
  by (cases item) (simp add: evaluate_step_def rekeyed_def)

lemma update_fresh: "k \<notin> fst ` set al \<Longrightarrow> AList.update k v al = al @ [(k, v)]"
  by (induction al) auto

lemma foldl_evaluate_step_map_of:
  "map_of (foldl evaluate_step acc ms) = map_of acc ++ map_of (rev (map rekeyed ms))"
proof (induction ms arbitrary: acc)
  case Nil
  then show ?case by simp
next
  case (Cons item ms)
  have "map_of (evaluate_step acc item) = map_of acc ++ map_of [rekeyed item]"
    by (simp add: evaluate_step_rekeyed update_conv')
  then show ?case
    by (simp add: Cons.IH map_add_assoc del: map_add_upd)
qed

lemma foldl_evaluate_step_distinct:
  "distinct (map fst acc @ map fst (map rekeyed ms)) \<Longrightarrow>
   foldl evaluate_step acc ms = acc @ map rekeyed ms"
proof (induction ms arbitrary: acc)
  case Nil
  then show ?case by simp
next
  case (Cons item ms)
  from Cons.prems have fresh: "fst (rekeyed item) \<notin> fst ` set acc"
    by auto
  have step: "evaluate_step acc item = acc @ [rekeyed item]"
    by (simp add: evaluate_step_rekeyed update_fresh [OF fresh])
  from Cons.prems have "distinct (map fst (acc @ [rekeyed item]) @ map fst (map rekeyed ms))"
    by auto
  from Cons.IH [OF this] show ?case
    by (simp add: step)
qed

text \<open>
  Claim C7, as stated, fails where it has the mapping forwarded unmodified when there
  are no metrics: for \<open>metrics = None\<close> the estimator receives the empty dict.
\<close>

theorem evaluate_no_metrics_counterexample:
  "forwarded_metrics (None :: (pykey \<times> (nat, nat) metric) list option) \<noteq> None"
  by (simp add: forwarded_metrics_def DNNRegressor_evaluate_def)

text \<open>
  Claim C7, amended. \<open>evaluate\<close> forwards a dict of its own: empty when \<open>metrics\<close> is
  \<open>None\<close> or empty; otherwise each entry whose value is no \<open>MetricSpec\<close> and whose key is
  no tuple is assigned under the pair of its key and \<open>SCORES\<close>, and every other entry
  under its own key, in the order of iteration, so that a later assignment to a key
  replaces an earlier one. When the keys assigned are pairwise different, the dict
  forwarded holds exactly the rewritten entries, in order.
\<close>

theorem evaluate_rekeys_metrics:
  "DNNRegressor_evaluate ev args None = ev args (Some [])
   \<and> DNNRegressor_evaluate ev args (Some []) = ev args (Some [])
   \<and> DNNRegressor_evaluate ev args (Some ms) = ev args (Some (foldl evaluate_step [] ms))
   \<and> map_of (foldl evaluate_step [] ms) = map_of (rev (map rekeyed ms))
   \<and> (distinct (map fst (map rekeyed ms)) \<longrightarrow> foldl evaluate_step [] ms = map rekeyed ms)"
proof -
  have "DNNRegressor_evaluate ev args (Some ms) = ev args (Some (foldl evaluate_step [] ms))"
    by (cases ms) (simp_all add: DNNRegressor_evaluate_def)
  moreover have "map_of (foldl evaluate_step [] ms) = map_of (rev (map rekeyed ms))"
    by (simp add: foldl_evaluate_step_map_of)
  moreover have "distinct (map fst (map rekeyed ms)) \<longrightarrow> foldl evaluate_step [] ms = map rekeyed ms"
    using foldl_evaluate_step_distinct [of "[]" ms] by simp
  ultimately show ?thesis
    by (simp add: DNNRegressor_evaluate_def)
qed

theorem evaluate_rekeys_metrics_witness:
  "distinct (map fst (map rekeyed
      [(KStr ''mse'', MetricFn (1::nat)), (KStr ''auc'', MetricSpec (2::nat)),
       (KTuple [KStr ''mae'', KPredictionKey SCORES], MetricFn 3)]))
   \<and> forwarded_metrics (Some
      [(KStr ''mse'', MetricFn (1::nat)), (KStr ''auc'', MetricSpec (2::nat)),
       (KTuple [KStr ''mae'', KPredictionKey SCORES], MetricFn 3)]) =
     Some [(KTuple [KStr ''mse'', KPredictionKey SCORES], MetricFn 1),
           (KStr ''auc'', MetricSpec 2),
           (KTuple [KStr ''mae'', KPredictionKey SCORES], MetricFn 3)]"
  using evaluate_rekeys_metrics [of "\<lambda>args ms. ms" "()"
      "[(KStr ''mse'', MetricFn (1::nat)), (KStr ''auc'', MetricSpec (2::nat)),
       (KTuple [KStr ''mae'', KPredictionKey SCORES], MetricFn 3)]"]
  by (simp add: forwarded_metrics_def rekeyed_def)

end
